theory Spec2Isabelle
  imports Main "HOL-Library.Word"
begin

unbundle bit_operations_syntax

section \<open>Errors and bytes\<close>

text \<open>
  The sentinel errors of \<^verbatim>\<open>errors.go\<close> together with the errors of Go's \<^verbatim>\<open>io\<close>
  package that the library returns or compares against. The values built with
  \<^verbatim>\<open>fmt.Errorf("%w: ...", ErrTrailingData, ...)\<close> in \<^verbatim>\<open>CheckTrailingNotZeros\<close> and the
  wrapped callback failures of the chained reader are constructors of their own;
  \<open>is_TrailingData\<close> is \<^verbatim>\<open>errors.Is(err, ErrTrailingData)\<close>. \<open>Panic\<close> stands for a run-time
  panic, \<open>OtherError\<close> for the errors of sources and sinks outside the library.
\<close>

type_synonym byte = "8 word"

datatype error =
    ErrNilIO
  | ErrSizeTooSmall
  | ErrAlreadyBuffered
  | ErrWriteToNil
  | ErrReadToNil
  | ErrInvalidSeek
  | ErrUnsupportedNegativeSeek
  | ErrInvalidWhence
  | ErrInvalidWrite
  | ErrInvalidRead
  | ErrDiscardNegative
  | ErrTrailingData
  | ErrTruncatedData
  | EOF
  | ErrUnexpectedEOF
  | ErrShortWrite
  | ErrShortBuffer
  | TrailingTooLarge
  | TrailingNonZero byte nat
  | ChainedReadFailed error
  | ChainedWriteFailed error
  | io_errInvalidWrite
  | Panic
  | OtherError nat

fun is_TrailingData :: "error \<Rightarrow> bool" where
  "is_TrailingData ErrTrailingData = True"
| "is_TrailingData TrailingTooLarge = True"
| "is_TrailingData (TrailingNonZero b i) = True"
| "is_TrailingData e = False"

datatype ByteOrder = BE | LE

definition Order :: ByteOrder where
  "Order = BE"

section \<open>Machine integers\<close>

text \<open>
  Go's \<^verbatim>\<open>int64\<close>, and \<^verbatim>\<open>int\<close> on a 64-bit platform, are integers between \<open>-2^63\<close> and
  \<open>2^63 - 1\<close> whose arithmetic wraps around. They are modelled as \<open>int\<close>, and every sum
  and difference that the code computes goes through \<open>wrap64\<close>.
\<close>

definition wrap64 :: "int \<Rightarrow> int" where
  "wrap64 x = signed_take_bit 63 x"

definition in_int64 :: "int \<Rightarrow> bool" where
  "in_int64 x = (- (2 ^ 63) \<le> x \<and> x < 2 ^ 63)"

lemma wrap64_id: "in_int64 x \<Longrightarrow> wrap64 x = x"
  by (simp add: wrap64_def in_int64_def signed_take_bit_int_eq_self)

lemma wrap64_zero: "wrap64 0 = 0"
  by (simp add: wrap64_def)


section \<open>Byte order\<close>

text \<open>
  \<^verbatim>\<open>binary.BigEndian\<close> and \<^verbatim>\<open>binary.LittleEndian\<close> of Go's \<^verbatim>\<open>encoding/binary\<close>, as the
  typed reader and writer call them on buffers of exactly 2, 4 and 8 bytes.
\<close>

definition PutUint16 :: "ByteOrder \<Rightarrow> 16 word \<Rightarrow> byte list" where
  "PutUint16 ord v =
     (case ord of
        BE \<Rightarrow> [ucast (drop_bit 8 v), ucast v]
      | LE \<Rightarrow> [ucast v, ucast (drop_bit 8 v)])"

definition PutUint32 :: "ByteOrder \<Rightarrow> 32 word \<Rightarrow> byte list" where
  "PutUint32 ord v =
     (case ord of
        BE \<Rightarrow> [ucast (drop_bit 24 v), ucast (drop_bit 16 v), ucast (drop_bit 8 v), ucast v]
      | LE \<Rightarrow> [ucast v, ucast (drop_bit 8 v), ucast (drop_bit 16 v), ucast (drop_bit 24 v)])"

definition PutUint64 :: "ByteOrder \<Rightarrow> 64 word \<Rightarrow> byte list" where
  "PutUint64 ord v =
     (case ord of
        BE \<Rightarrow> [ucast (drop_bit 56 v), ucast (drop_bit 48 v), ucast (drop_bit 40 v),
               ucast (drop_bit 32 v), ucast (drop_bit 24 v), ucast (drop_bit 16 v),
               ucast (drop_bit 8 v), ucast v]
      | LE \<Rightarrow> [ucast v, ucast (drop_bit 8 v), ucast (drop_bit 16 v), ucast (drop_bit 24 v),
               ucast (drop_bit 32 v), ucast (drop_bit 40 v), ucast (drop_bit 48 v),
               ucast (drop_bit 56 v)])"

text \<open>Big-endian value of a byte sequence: \<^verbatim>\<open>b[n-1] | b[n-2]<<8 | ...\<close>.\<close>

definition be_value :: "byte list \<Rightarrow> 'a::len word" where
  "be_value bs = foldl (\<lambda>acc b. push_bit 8 acc OR ucast b) 0 bs"

definition Uint16 :: "ByteOrder \<Rightarrow> byte list \<Rightarrow> 16 word" where
  "Uint16 ord b = (case ord of BE \<Rightarrow> be_value (take 2 b) | LE \<Rightarrow> be_value (rev (take 2 b)))"

definition Uint32 :: "ByteOrder \<Rightarrow> byte list \<Rightarrow> 32 word" where
  "Uint32 ord b = (case ord of BE \<Rightarrow> be_value (take 4 b) | LE \<Rightarrow> be_value (rev (take 4 b)))"

definition Uint64 :: "ByteOrder \<Rightarrow> byte list \<Rightarrow> 64 word" where
  "Uint64 ord b = (case ord of BE \<Rightarrow> be_value (take 8 b) | LE \<Rightarrow> be_value (rev (take 8 b)))"

section \<open>Readers of Go's io package\<close>

text \<open>
  An \<^verbatim>\<open>io.Reader\<close> is a state and its \<^verbatim>\<open>Read\<close> method. \<^verbatim>\<open>Read(p)\<close> is given \<open>len(p)\<close>
  and returns the bytes it stored at the front of \<open>p\<close> (their number is Go's \<open>n\<close>), the
  error, and the reader's new state.
\<close>

type_synonym 'st read_fn = "'st \<Rightarrow> nat \<Rightarrow> byte list \<times> error option \<times> 'st"

text \<open>
  \<^verbatim>\<open>io.ReadAtLeast\<close>: the loop \<^verbatim>\<open>for n < min && err == nil\<close>. A reader that keeps returning
  \<open>(0, nil)\<close> keeps it running; then the result is \<open>None\<close>. \<open>acc\<close> is \<open>buf[:n]\<close>.
\<close>

partial_function (option) ReadAtLeast_loop ::
  "'st read_fn \<Rightarrow> nat \<Rightarrow> nat \<Rightarrow> 'st \<Rightarrow> byte list \<Rightarrow> error option
     \<Rightarrow> (byte list \<times> error option \<times> 'st) option" where
  "ReadAtLeast_loop rf ln mn st acc err =
     (if length acc < mn \<and> err = None
      then (case rf st (ln - length acc) of
              (d, e, st') \<Rightarrow> ReadAtLeast_loop rf ln mn st' (acc @ d) e)
      else Some (acc, err, st))"

definition ReadAtLeast ::
  "'st read_fn \<Rightarrow> 'st \<Rightarrow> nat \<Rightarrow> nat \<Rightarrow> (byte list \<times> error option \<times> 'st) option" where
  "ReadAtLeast rf st ln mn =
     (if ln < mn then Some ([], Some ErrShortBuffer, st)
      else (case ReadAtLeast_loop rf ln mn st [] None of
              None \<Rightarrow> None
            | Some (acc, err, st') \<Rightarrow>
                Some (acc,
                      (if length acc \<ge> mn then None
                       else if length acc > 0 \<and> err = Some EOF then Some ErrUnexpectedEOF
                       else err),
                      st')))"

definition ReadFull ::
  "'st read_fn \<Rightarrow> 'st \<Rightarrow> nat \<Rightarrow> (byte list \<times> error option \<times> 'st) option" where
  "ReadFull rf st ln = ReadAtLeast rf st ln ln"

text \<open>\<^verbatim>\<open>io.LimitedReader\<close>: a reader and the number \<open>N\<close> of bytes it may still deliver.\<close>

definition LimitedReader_Read :: "'st read_fn \<Rightarrow> ('st \<times> int) read_fn" where
  "LimitedReader_Read rf l k =
     (case l of (st, N) \<Rightarrow>
        if N \<le> 0 then ([], Some EOF, (st, N))
        else (case rf st (if int k > N then nat N else k) of
                (d, e, st') \<Rightarrow> (d, e, (st', wrap64 (N - int (length d))))))"

text \<open>
  \<^verbatim>\<open>io.Discard.ReadFrom\<close>: reads 8192 bytes at a time until an error; end of stream is
  success.
\<close>

partial_function (option) discard_ReadFrom ::
  "'st read_fn \<Rightarrow> 'st \<Rightarrow> int \<Rightarrow> (int \<times> error option \<times> 'st) option" where
  "discard_ReadFrom rf st n =
     (case rf st 8192 of
        (d, e, st') \<Rightarrow>
          (case e of
             Some err \<Rightarrow>
               Some (wrap64 (n + int (length d)), (if err = EOF then None else Some err), st')
           | None \<Rightarrow> discard_ReadFrom rf st' (wrap64 (n + int (length d)))))"

text \<open>
  \<^verbatim>\<open>io.CopyN(io.Discard, r, n)\<close>: \<^verbatim>\<open>io.Copy\<close> from \<^verbatim>\<open>io.LimitReader(r, n)\<close>, which hands the
  limited reader to \<^verbatim>\<open>io.Discard\<close>'s \<^verbatim>\<open>ReadFrom\<close>.
\<close>

definition CopyN_Discard ::
  "'st read_fn \<Rightarrow> 'st \<Rightarrow> int \<Rightarrow> (int \<times> error option \<times> 'st) option" where
  "CopyN_Discard rf st n =
     (case discard_ReadFrom (LimitedReader_Read rf) (st, n) 0 of
        None \<Rightarrow> None
      | Some (written, err, (st', N')) \<Rightarrow>
          Some (if written = n then (n, None, st')
                else (written, (if written < n \<and> err = None then Some EOF else err), st')))"

section \<open>Helpers\<close>

definition BUFFER_SIZE :: int where
  "BUFFER_SIZE = 4096"

text \<open>
  \<^verbatim>\<open>Roundup\<close>: \<^verbatim>\<open>(n + (align - 1)) &^ (align - 1)\<close>, at the types \<^verbatim>\<open>int\<close> and \<^verbatim>\<open>int64\<close>
  at which the library calls it.
\<close>

definition Roundup :: "int \<Rightarrow> int \<Rightarrow> int" where
  "Roundup n align = wrap64 (n + wrap64 (align - 1)) AND NOT (wrap64 (align - 1))"

definition Discard :: "'st read_fn \<Rightarrow> 'st \<Rightarrow> int \<Rightarrow> (int \<times> error option \<times> 'st) option" where
  "Discard rf st n =
     (if n = 0 then Some (0, None, st)
      else if n < 0 then Some (0, Some ErrDiscardNegative, st)
      else if n \<le> BUFFER_SIZE
        then (case rf st (nat n) of (d, e, st') \<Rightarrow> Some (int (length d), e, st'))
      else CopyN_Discard rf st n)"

section \<open>The typed reader: construction\<close>

text \<open>
  \<^verbatim>\<open>Reader\<close> of the typed reader: the underlying \<^verbatim>\<open>ReaderPro\<close>, the cumulative byte
  count, the latched first error and the byte order.
\<close>

record 's Reader =
  rd_r :: 's
  rd_count :: int
  rd_err :: "error option"
  rd_order :: ByteOrder

text \<open>
  The argument of \<^verbatim>\<open>NewReaderSize\<close> is an \<^verbatim>\<open>io.Reader\<close> interface value; the constructor
  switches on its dynamic type. \<open>'a\<close> is the source object itself. For a \<^verbatim>\<open>*Reader\<close> the
  value carries the reader's underlying \<^verbatim>\<open>r\<close> and what \<^verbatim>\<open>reader.r.Size()\<close> returns, for a
  \<^verbatim>\<open>*bufio.Reader\<close> what \<^verbatim>\<open>reader.Size()\<close> returns.
\<close>

datatype 'a io_Reader =
    NilReader
  | PtrReader 'a int
  | PtrBufioReader 'a int
  | PtrBytesReader 'a
  | PtrBytesDotReader 'a
  | PtrBytesBuffer 'a
  | OtherReader 'a

text \<open>The \<^verbatim>\<open>ReaderPro\<close> that the constructor stores in the new reader.\<close>

datatype 'a ReaderPro_choice =
    ReuseUnderlying 'a
  | BufioReaderAdapter 'a
  | DirectBytesReader 'a
  | BytesReaderAdapter 'a
  | BytesBufferReaderAdapter 'a
  | NewBufioReaderAdapter "'a io_Reader" int

definition mkReader :: "'s \<Rightarrow> 's Reader" where
  "mkReader u = \<lparr>rd_r = u, rd_count = 0, rd_err = None, rd_order = Order\<rparr>"

fun NewReaderSize :: "'a io_Reader \<Rightarrow> int \<Rightarrow> error + ('a ReaderPro_choice) Reader" where
  "NewReaderSize NilReader sz = Inl ErrNilIO"
| "NewReaderSize (PtrReader u usize) sz =
     (if usize \<ge> sz then Inr (mkReader (ReuseUnderlying u))
      else if sz < 16 then Inl ErrSizeTooSmall
      else Inr (mkReader (NewBufioReaderAdapter (PtrReader u usize) sz)))"
| "NewReaderSize (PtrBufioReader b bsize) sz =
     (if bsize \<ge> sz then Inr (mkReader (BufioReaderAdapter b))
      else Inl ErrAlreadyBuffered)"
| "NewReaderSize (PtrBytesReader b) sz = Inr (mkReader (DirectBytesReader b))"
| "NewReaderSize (PtrBytesDotReader b) sz = Inr (mkReader (BytesReaderAdapter b))"
| "NewReaderSize (PtrBytesBuffer b) sz = Inr (mkReader (BytesBufferReaderAdapter b))"
| "NewReaderSize (OtherReader x) sz =
     (if sz < 16 then Inl ErrSizeTooSmall
      else Inr (mkReader (NewBufioReaderAdapter (OtherReader x) sz)))"

definition NewReader :: "'a io_Reader \<Rightarrow> error + ('a ReaderPro_choice) Reader" where
  "NewReader src = NewReaderSize src 0"

section \<open>Byte-slice reader and writer\<close>

text \<open>\<^verbatim>\<open>BytesReader\<close>: the slice \<open>B\<close> and the read position \<open>N\<close>.\<close>

record BytesReader =
  br_B :: "byte list"
  br_N :: nat

definition NewBytesReader :: "byte list \<Rightarrow> BytesReader" where
  "NewBytesReader b = \<lparr>br_B = b, br_N = 0\<rparr>"

definition BytesReader_Read :: "BytesReader read_fn" where
  "BytesReader_Read r k =
     (if br_N r \<ge> length (br_B r) then ([], Some EOF, r)
      else (let d = take k (drop (br_N r) (br_B r))
            in (d, None, r\<lparr>br_N := br_N r + length d\<rparr>)))"

definition BytesReader_ReadByte :: "BytesReader \<Rightarrow> byte \<times> error option \<times> BytesReader" where
  "BytesReader_ReadByte r =
     (if br_N r \<ge> length (br_B r) then (0, Some EOF, r)
      else (br_B r ! br_N r, None, r\<lparr>br_N := br_N r + 1\<rparr>))"

text \<open>\<^verbatim>\<open>Seek\<close>; \<^verbatim>\<open>io.SeekStart\<close>, \<^verbatim>\<open>io.SeekCurrent\<close> and \<^verbatim>\<open>io.SeekEnd\<close> are 0, 1 and 2.\<close>

definition BytesReader_Seek ::
  "BytesReader \<Rightarrow> int \<Rightarrow> int \<Rightarrow> int \<times> error option \<times> BytesReader" where
  "BytesReader_Seek r offset whence =
     (if whence \<noteq> 0 \<and> whence \<noteq> 1 \<and> whence \<noteq> 2 then (0, Some ErrInvalidWhence, r)
      else (let abs = (if whence = 0 then offset
                       else if whence = 1 then wrap64 (int (br_N r) + offset)
                       else wrap64 (int (length (br_B r)) + offset))
            in if abs < 0 then (0, Some ErrInvalidSeek, r)
               else (abs, None, r\<lparr>br_N := nat abs\<rparr>)))"

definition BytesReader_Size :: "BytesReader \<Rightarrow> int" where
  "BytesReader_Size r = int (length (br_B r))"

definition BytesReader_Available :: "BytesReader \<Rightarrow> int" where
  "BytesReader_Available r =
     (let l = int (length (br_B r)) - int (br_N r) in if l \<le> 0 then 0 else l)"

text \<open>
  \<^verbatim>\<open>BytesWriter\<close>: the destination slice \<open>B\<close>, which never grows, and the write position.
  \<open>copy_at\<close> is Go's \<^verbatim>\<open>copy(w.B[w.N:], p)\<close>: the slice after the copy and the number of
  bytes copied.
\<close>

record BytesWriter =
  bw_B :: "byte list"
  bw_N :: nat

definition copy_at :: "byte list \<Rightarrow> nat \<Rightarrow> byte list \<Rightarrow> byte list \<times> nat" where
  "copy_at B N p =
     (let n = min (length B - N) (length p)
      in (take N B @ take n p @ drop (N + n) B, n))"

definition BytesWriter_Write :: "BytesWriter \<Rightarrow> byte list \<Rightarrow> int \<times> error option \<times> BytesWriter" where
  "BytesWriter_Write w p =
     (if bw_N w \<ge> length (bw_B w) then (0, Some ErrShortWrite, w)
      else (case copy_at (bw_B w) (bw_N w) p of
              (B', n) \<Rightarrow>
                (int n, (if n < length p then Some ErrShortWrite else None),
                 w\<lparr>bw_B := B', bw_N := bw_N w + n\<rparr>)))"

definition BytesWriter_WriteString ::
  "BytesWriter \<Rightarrow> string \<Rightarrow> int \<times> error option \<times> BytesWriter" where
  "BytesWriter_WriteString w str =
     (if bw_N w \<ge> length (bw_B w) then (0, Some ErrShortWrite, w)
      else (case copy_at (bw_B w) (bw_N w) (map (\<lambda>c. word_of_nat (of_char c)) str) of
              (B', n) \<Rightarrow>
                (int n, (if n < length str then Some ErrShortWrite else None),
                 w\<lparr>bw_B := B', bw_N := bw_N w + n\<rparr>)))"

definition BytesWriter_WriteByte :: "BytesWriter \<Rightarrow> byte \<Rightarrow> error option \<times> BytesWriter" where
  "BytesWriter_WriteByte w c =
     (if bw_N w \<ge> length (bw_B w) then (Some ErrShortWrite, w)
      else (None, w\<lparr>bw_B := (bw_B w)[bw_N w := c], bw_N := bw_N w + 1\<rparr>))"

text \<open>
  \<^verbatim>\<open>ReadFrom(io.LimitReader(Zero, n))\<close>: one \<^verbatim>\<open>Read\<close> into the free part of the slice. The
  limited reader answers end of stream when \<open>n \<le> 0\<close>, which \<^verbatim>\<open>ReadFrom\<close> returns as success.
\<close>

definition BytesWriter_ReadFrom :: "BytesWriter \<Rightarrow> int \<Rightarrow> int \<times> error option \<times> BytesWriter" where
  "BytesWriter_ReadFrom w n =
     (if bw_N w \<ge> length (bw_B w) then (0, Some ErrShortWrite, w)
      else if n \<le> 0 then (0, None, w)
      else (case copy_at (bw_B w) (bw_N w) (replicate (nat n) 0) of
              (B', m) \<Rightarrow> (int m, None, w\<lparr>bw_B := B', bw_N := bw_N w + m\<rparr>)))"

definition BytesWriter_Flush :: "BytesWriter \<Rightarrow> error option \<times> BytesWriter" where
  "BytesWriter_Flush w = (None, w)"

definition BytesWriter_Size :: "BytesWriter \<Rightarrow> int" where
  "BytesWriter_Size w = int (length (bw_B w))"

definition BytesWriter_Bytes :: "BytesWriter \<Rightarrow> byte list" where
  "BytesWriter_Bytes w = take (bw_N w) (bw_B w)"

definition BytesWriter_Len :: "BytesWriter \<Rightarrow> int" where
  "BytesWriter_Len w = int (bw_N w)"

section \<open>The typed reader\<close>

text \<open>
  The methods of the \<^verbatim>\<open>ReaderPro\<close> interface that the typed reader calls on its underlying
  reader, over the underlying reader's state \<open>'s\<close>.
\<close>

record 's ReaderPro =
  rp_Read :: "'s read_fn"
  rp_ReadByte :: "'s \<Rightarrow> byte \<times> error option \<times> 's"
  rp_Seek :: "'s \<Rightarrow> int \<Rightarrow> int \<Rightarrow> int \<times> error option \<times> 's"
  rp_Size :: "'s \<Rightarrow> int"

definition Reader_setError :: "'s Reader \<Rightarrow> error option \<Rightarrow> 's Reader" where
  "Reader_setError rd e = (if rd_err rd = None \<and> e \<noteq> None then rd\<lparr>rd_err := e\<rparr> else rd)"

definition Reader_Read :: "'s ReaderPro \<Rightarrow> ('s Reader) read_fn" where
  "Reader_Read ops rd k =
     (case rd_err rd of
        Some e \<Rightarrow> ([], Some e, rd)
      | None \<Rightarrow>
          (case rp_Read ops (rd_r rd) k of
             (d, e, u') \<Rightarrow>
               (let rd' = Reader_setError
                            (rd\<lparr>rd_r := u', rd_count := wrap64 (rd_count rd + int (length d))\<rparr>) e
                in (d, rd_err rd', rd'))))"

definition Reader_Seek ::
  "'s ReaderPro \<Rightarrow> 's Reader \<Rightarrow> int \<Rightarrow> int \<Rightarrow> int \<times> error option \<times> 's Reader" where
  "Reader_Seek ops rd offset whence =
     (case rd_err rd of
        Some e \<Rightarrow> (rd_count rd, Some e, rd)
      | None \<Rightarrow>
          (case rp_Seek ops (rd_r rd) offset whence of
             (newPos, e, u') \<Rightarrow>
               (newPos, e, Reader_setError (rd\<lparr>rd_r := u', rd_count := newPos\<rparr>) e)))"

definition Reader_Count :: "'s Reader \<Rightarrow> int" where
  "Reader_Count rd = rd_count rd"

definition Reader_Err :: "'s Reader \<Rightarrow> error option" where
  "Reader_Err rd = rd_err rd"


text \<open>
  \<^verbatim>\<open>readFull\<close> reads through the typed reader's own \<^verbatim>\<open>Read\<close>. The result is the buffer
  (\<open>None\<close> is Go's \<open>nil\<close>) and the reader; the outer \<open>None\<close> is a read that never returns.
\<close>

definition Reader_readFull ::
  "'s ReaderPro \<Rightarrow> 's Reader \<Rightarrow> nat \<Rightarrow> (byte list option \<times> 's Reader) option" where
  "Reader_readFull ops rd n =
     (if rd_err rd \<noteq> None then Some (None, rd)
      else (case ReadFull (Reader_Read ops) rd n of
              None \<Rightarrow> None
            | Some (acc, e, rd') \<Rightarrow>
                (case e of
                   Some err \<Rightarrow>
                     Some (None, rd'\<lparr>rd_err := Some (if err = EOF then ErrUnexpectedEOF else err)\<rparr>)
                 | None \<Rightarrow> Some (Some (take n (acc @ replicate (n - length acc) 0)), rd'))))"

definition Reader_ReadBytes ::
  "'s ReaderPro \<Rightarrow> 's Reader \<Rightarrow> int \<Rightarrow> (byte list option \<times> 's Reader) option" where
  "Reader_ReadBytes ops rd n = (if n \<le> 0 then Some (None, rd) else Reader_readFull ops rd (nat n))"

text \<open>\<^verbatim>\<open>ReadBytesTo(dest)\<close>: the result is the content of \<open>dest\<close> after the call.\<close>

definition Reader_ReadBytesTo ::
  "'s ReaderPro \<Rightarrow> 's Reader \<Rightarrow> byte list \<Rightarrow> (byte list \<times> 's Reader) option" where
  "Reader_ReadBytesTo ops rd dest =
     (if rd_err rd \<noteq> None then Some (dest, rd)
      else if length dest = 0 then Some (dest, rd)
      else (case ReadFull (Reader_Read ops) rd (length dest) of
              None \<Rightarrow> None
            | Some (acc, e, rd') \<Rightarrow>
                Some (take (length dest) (acc @ drop (length acc) dest),
                      (case e of Some err \<Rightarrow> rd'\<lparr>rd_err := Some err\<rparr> | None \<Rightarrow> rd'))))"

definition Reader_Align :: "'s ReaderPro \<Rightarrow> 's Reader \<Rightarrow> int \<Rightarrow> ('s Reader) option" where
  "Reader_Align ops rd n =
     (if n > 1
      then (case Discard (Reader_Read ops) rd
                   (wrap64 (Roundup (rd_count rd) n - rd_count rd)) of
              None \<Rightarrow> None
            | Some (skipped, e, rd') \<Rightarrow> Some rd')
      else Some rd)"

text \<open>
  The single-byte primitives share one body; \<open>conv\<close> is the conversion of the byte that
  is stored through the destination pointer. The result is the destination's value after
  the call and the reader.
\<close>

definition Reader_read1 ::
  "(byte \<Rightarrow> 'v) \<Rightarrow> 's ReaderPro \<Rightarrow> 's Reader \<Rightarrow> 'v \<Rightarrow> 'v \<times> 's Reader" where
  "Reader_read1 conv ops rd dest =
     (case rd_err rd of
        Some e \<Rightarrow> (dest, rd)
      | None \<Rightarrow>
          (case rp_ReadByte ops (rd_r rd) of
             (b, e, u') \<Rightarrow>
               (case e of
                  None \<Rightarrow> (conv b, rd\<lparr>rd_r := u', rd_count := wrap64 (rd_count rd + 1)\<rparr>)
                | Some err \<Rightarrow> (dest, rd\<lparr>rd_r := u', rd_err := Some err\<rparr>))))"

definition Reader_ReadBool :: "'s ReaderPro \<Rightarrow> 's Reader \<Rightarrow> bool \<Rightarrow> bool \<times> 's Reader" where
  "Reader_ReadBool = Reader_read1 (\<lambda>b. b \<noteq> 0)"

definition Reader_ReadUint8 :: "'s ReaderPro \<Rightarrow> 's Reader \<Rightarrow> 8 word \<Rightarrow> 8 word \<times> 's Reader" where
  "Reader_ReadUint8 = Reader_read1 (\<lambda>b. b)"

definition Reader_ReadInt8 :: "'s ReaderPro \<Rightarrow> 's Reader \<Rightarrow> 8 word \<Rightarrow> 8 word \<times> 's Reader" where
  "Reader_ReadInt8 = Reader_read1 (\<lambda>b. b)"

definition Reader_ReadByte :: "'s ReaderPro \<Rightarrow> 's Reader \<Rightarrow> byte \<times> error option \<times> 's Reader" where
  "Reader_ReadByte ops rd =
     (case rd_err rd of
        Some e \<Rightarrow> (0, Some e, rd)
      | None \<Rightarrow>
          (case rp_ReadByte ops (rd_r rd) of
             (b, e, u') \<Rightarrow>
               (case e of
                  None \<Rightarrow> (b, None, rd\<lparr>rd_r := u', rd_count := wrap64 (rd_count rd + 1)\<rparr>)
                | Some err \<Rightarrow> (b, Some err, rd\<lparr>rd_r := u', rd_err := Some err\<rparr>))))"

text \<open>
  The multi-byte primitives: \<^verbatim>\<open>buf := r.readFull(n); if r.err == nil { *dest = ... }\<close>.
  Signed values are kept as the words of their two's complement.
\<close>

definition Reader_readN ::
  "nat \<Rightarrow> (ByteOrder \<Rightarrow> byte list \<Rightarrow> 'v) \<Rightarrow> 's ReaderPro \<Rightarrow> 's Reader \<Rightarrow> 'v
     \<Rightarrow> ('v \<times> 's Reader) option" where
  "Reader_readN n dec ops rd dest =
     (case Reader_readFull ops rd n of
        None \<Rightarrow> None
      | Some (buf, rd') \<Rightarrow>
          Some (if rd_err rd' = None
                then (dec (rd_order rd') (case buf of Some b \<Rightarrow> b | None \<Rightarrow> []), rd')
                else (dest, rd')))"

definition Reader_ReadUint16 ::
  "'s ReaderPro \<Rightarrow> 's Reader \<Rightarrow> 16 word \<Rightarrow> (16 word \<times> 's Reader) option" where
  "Reader_ReadUint16 = Reader_readN 2 Uint16"

definition Reader_ReadUint32 ::
  "'s ReaderPro \<Rightarrow> 's Reader \<Rightarrow> 32 word \<Rightarrow> (32 word \<times> 's Reader) option" where
  "Reader_ReadUint32 = Reader_readN 4 Uint32"

definition Reader_ReadUint64 ::
  "'s ReaderPro \<Rightarrow> 's Reader \<Rightarrow> 64 word \<Rightarrow> (64 word \<times> 's Reader) option" where
  "Reader_ReadUint64 = Reader_readN 8 Uint64"

definition Reader_ReadInt16 ::
  "'s ReaderPro \<Rightarrow> 's Reader \<Rightarrow> 16 word \<Rightarrow> (16 word \<times> 's Reader) option" where
  "Reader_ReadInt16 = Reader_readN 2 Uint16"

definition Reader_ReadInt32 ::
  "'s ReaderPro \<Rightarrow> 's Reader \<Rightarrow> 32 word \<Rightarrow> (32 word \<times> 's Reader) option" where
  "Reader_ReadInt32 = Reader_readN 4 Uint32"

definition Reader_ReadInt64 ::
  "'s ReaderPro \<Rightarrow> 's Reader \<Rightarrow> 64 word \<Rightarrow> (64 word \<times> 's Reader) option" where
  "Reader_ReadInt64 = Reader_readN 8 Uint64"

subsection \<open>A latched reader\<close>

lemma Reader_Read_latched:
  "rd_err rd = Some e \<Longrightarrow> Reader_Read ops rd k = ([], Some e, rd)"
  by (simp add: Reader_Read_def)

lemma Reader_Seek_latched:
  "rd_err rd = Some e \<Longrightarrow> Reader_Seek ops rd offset whence = (rd_count rd, Some e, rd)"
  by (simp add: Reader_Seek_def)

lemma Reader_readFull_latched:
  "rd_err rd = Some e \<Longrightarrow> Reader_readFull ops rd n = Some (None, rd)"
  by (simp add: Reader_readFull_def)

lemma Reader_ReadBytes_latched:
  "rd_err rd = Some e \<Longrightarrow> Reader_ReadBytes ops rd n = Some (None, rd)"
  by (simp add: Reader_ReadBytes_def Reader_readFull_latched)

lemma Reader_ReadBytesTo_latched:
  "rd_err rd = Some e \<Longrightarrow> Reader_ReadBytesTo ops rd dest = Some (dest, rd)"
  by (simp add: Reader_ReadBytesTo_def)

lemma Reader_read1_latched:
  "rd_err rd = Some e \<Longrightarrow> Reader_read1 conv ops rd dest = (dest, rd)"
  by (simp add: Reader_read1_def)

lemma Reader_ReadByte_latched:
  "rd_err rd = Some e \<Longrightarrow> Reader_ReadByte ops rd = (0, Some e, rd)"
  by (simp add: Reader_ReadByte_def)

lemma Reader_readN_latched:
  "rd_err rd = Some e \<Longrightarrow> Reader_readN n dec ops rd dest = Some (dest, rd)"
  by (simp add: Reader_readN_def Reader_readFull_latched)

text \<open>
  A latched reader answers every \<^verbatim>\<open>Read\<close> with no bytes and its error, so the loop of
  \<^verbatim>\<open>io.Discard\<close> stops at once and the limit it reads through is still whole.
\<close>

lemma discard_ReadFrom_latched:
  assumes "rd_err rd = Some e" and "0 < N"
  shows "discard_ReadFrom (LimitedReader_Read (Reader_Read ops)) (rd, N) 0
           = Some (0, (if e = EOF then None else Some e), (rd, wrap64 N))"
  using assms
  by (subst discard_ReadFrom.simps)
     (simp add: LimitedReader_Read_def Reader_Read_latched wrap64_zero)

lemma Discard_latched:
  assumes "rd_err rd = Some e"
  shows "\<exists>skipped e'. Discard (Reader_Read ops) rd n = Some (skipped, e', rd)"
proof -
  consider "n = 0" | "n < 0" | "0 < n" "n \<le> BUFFER_SIZE" | "BUFFER_SIZE < n"
    by linarith
  then show ?thesis
  proof cases
    case 1
    then show ?thesis by (simp add: Discard_def)
  next
    case 2
    then show ?thesis by (simp add: Discard_def)
  next
    case 3
    then show ?thesis using assms by (simp add: Discard_def Reader_Read_latched)
  next
    case 4
    then have pos: "0 < n" by (simp add: BUFFER_SIZE_def)
    show ?thesis
      using 4 pos discard_ReadFrom_latched [OF assms pos, of ops]
      by (simp add: Discard_def CopyN_Discard_def)
  qed
qed

lemma Reader_Align_latched:
  assumes "rd_err rd = Some e"
  shows "Reader_Align ops rd n = Some rd"
proof (cases "n > 1")
  case True
  obtain skipped e' where
    "Discard (Reader_Read ops) rd (wrap64 (Roundup (rd_count rd) n - rd_count rd))
       = Some (skipped, e', rd)"
    using Discard_latched [OF assms] by blast
  with True show ?thesis by (simp add: Reader_Align_def)
next
  case False
  then show ?thesis by (simp add: Reader_Align_def)
qed

section \<open>The typed writer\<close>

text \<open>
  \<^verbatim>\<open>Writer\<close> holds a pointer to its underlying \<^verbatim>\<open>WriterPro\<close>: a writer built over another
  typed writer points to the same object. The underlying writers live in a store, and
  \<open>wr_w\<close> is the address; the constructor is modelled further down with the object's
  identity in that field.
\<close>

record 'w Writer =
  wr_w :: 'w
  wr_count :: int
  wr_err :: "error option"
  wr_depth :: int
  wr_order :: ByteOrder

type_synonym 'u store = "nat \<Rightarrow> 'u"

text \<open>
  The methods of \<^verbatim>\<open>WriterPro\<close> that the typed writer calls, over the state \<open>'u\<close> of the
  underlying writer. \<open>wp_ReadFrom\<close> is \<^verbatim>\<open>ReadFrom(io.LimitReader(Zero, n))\<close>, the only reader
  the typed writer itself hands over, given by \<open>n\<close>.
\<close>

record 'u WriterPro =
  wp_Write :: "'u \<Rightarrow> byte list \<Rightarrow> int \<times> error option \<times> 'u"
  wp_WriteByte :: "'u \<Rightarrow> byte \<Rightarrow> error option \<times> 'u"
  wp_WriteString :: "'u \<Rightarrow> string \<Rightarrow> int \<times> error option \<times> 'u"
  wp_ReadFrom :: "'u \<Rightarrow> int \<Rightarrow> int \<times> error option \<times> 'u"
  wp_Flush :: "'u \<Rightarrow> error option \<times> 'u"
  wp_Size :: "'u \<Rightarrow> int"

definition Writer_setError :: "'w Writer \<Rightarrow> error option \<Rightarrow> 'w Writer" where
  "Writer_setError w e = (if wr_err w = None \<and> e \<noteq> None then w\<lparr>wr_err := e\<rparr> else w)"

text \<open>\<^verbatim>\<open>Write(buf)\<close>; \<open>None\<close> is the \<open>nil\<close> slice.\<close>

definition Writer_Write ::
  "'u WriterPro \<Rightarrow> 'u store \<Rightarrow> nat Writer \<Rightarrow> byte list option
     \<Rightarrow> int \<times> error option \<times> 'u store \<times> nat Writer" where
  "Writer_Write ops h w buf =
     (case buf of
        None \<Rightarrow> (0, wr_err w, h, w)
      | Some bs \<Rightarrow>
          if wr_err w \<noteq> None then (0, wr_err w, h, w)
          else (case wp_Write ops (h (wr_w w)) bs of
                  (n, e, u') \<Rightarrow>
                    (let w' = Writer_setError (w\<lparr>wr_count := wrap64 (wr_count w + n)\<rparr>) e
                     in (n, wr_err w', h(wr_w w := u'), w'))))"

definition Writer_WriteString ::
  "'u WriterPro \<Rightarrow> 'u store \<Rightarrow> nat Writer \<Rightarrow> string
     \<Rightarrow> int \<times> error option \<times> 'u store \<times> nat Writer" where
  "Writer_WriteString ops h w str =
     (if str = [] \<or> wr_err w \<noteq> None then (0, wr_err w, h, w)
      else (case wp_WriteString ops (h (wr_w w)) str of
              (n, e, u') \<Rightarrow>
                (let w' = Writer_setError (w\<lparr>wr_count := wrap64 (wr_count w + n)\<rparr>) e
                 in (n, wr_err w', h(wr_w w := u'), w'))))"

text \<open>\<^verbatim>\<open>ReadFrom(r)\<close> for \<open>r = io.LimitReader(Zero, n)\<close>.\<close>

definition Writer_ReadFrom ::
  "'u WriterPro \<Rightarrow> 'u store \<Rightarrow> nat Writer \<Rightarrow> int
     \<Rightarrow> int \<times> error option \<times> 'u store \<times> nat Writer" where
  "Writer_ReadFrom ops h w n =
     (if wr_err w \<noteq> None then (0, wr_err w, h, w)
      else (case wp_ReadFrom ops (h (wr_w w)) n of
              (m, e, u') \<Rightarrow>
                (let w' = Writer_setError (w\<lparr>wr_count := wrap64 (wr_count w + m)\<rparr>) e
                 in (m, wr_err w', h(wr_w w := u'), w'))))"

definition Writer_Flush ::
  "'u WriterPro \<Rightarrow> 'u store \<Rightarrow> nat Writer \<Rightarrow> error option \<times> 'u store \<times> nat Writer" where
  "Writer_Flush ops h w =
     (if wr_depth w > 0 \<or> wr_err w \<noteq> None then (wr_err w, h, w)
      else (case wp_Flush ops (h (wr_w w)) of
              (e, u') \<Rightarrow> (e, h(wr_w w := u'), Writer_setError w e)))"

definition Writer_Result ::
  "'u WriterPro \<Rightarrow> 'u store \<Rightarrow> nat Writer \<Rightarrow> int \<times> error option \<times> 'u store \<times> nat Writer" where
  "Writer_Result ops h w =
     (case Writer_Flush ops h w of (e, h', w') \<Rightarrow> (wr_count w', wr_err w', h', w'))"

text \<open>
  \<^verbatim>\<open>WriteFrom(wt)\<close>: \<open>wt\<close> is the \<^verbatim>\<open>WriteTo\<close> method of the \<^verbatim>\<open>io.WriterTo\<close>, applied to the
  underlying writer; \<open>None\<close> is \<open>nil\<close>.
\<close>

definition Writer_WriteFrom ::
  "'u store \<Rightarrow> nat Writer \<Rightarrow> ('u \<Rightarrow> int \<times> error option \<times> 'u) option
     \<Rightarrow> 'u store \<times> nat Writer" where
  "Writer_WriteFrom h w wt =
     (case wt of
        None \<Rightarrow> (h, w)
      | Some WriteTo \<Rightarrow>
          if wr_err w \<noteq> None then (h, w)
          else (case WriteTo (h (wr_w w)) of
                  (n, e, u') \<Rightarrow>
                    (h(wr_w w := u'), Writer_setError (w\<lparr>wr_count := wrap64 (wr_count w + n)\<rparr>) e)))"

definition Writer_WriteBytes ::
  "'u WriterPro \<Rightarrow> 'u store \<Rightarrow> nat Writer \<Rightarrow> byte list option \<Rightarrow> 'u store \<times> nat Writer" where
  "Writer_WriteBytes ops h w buf =
     (if buf = None \<or> wr_err w \<noteq> None then (h, w)
      else (case Writer_Write ops h w buf of (n, e, h', w') \<Rightarrow> (h', w')))"

text \<open>
  \<^verbatim>\<open>io.CopyN(w, Zero, n)\<close> with the typed writer as destination: the limited zero reader
  has no \<^verbatim>\<open>WriteTo\<close> and the typed writer has \<^verbatim>\<open>ReadFrom\<close>, which \<^verbatim>\<open>io.Copy\<close> calls.
\<close>

definition CopyN_Zero ::
  "'u WriterPro \<Rightarrow> 'u store \<Rightarrow> nat Writer \<Rightarrow> int
     \<Rightarrow> int \<times> error option \<times> 'u store \<times> nat Writer" where
  "CopyN_Zero ops h w n =
     (case Writer_ReadFrom ops h w n of
        (written, err, h', w') \<Rightarrow>
          if written = n then (n, None, h', w')
          else (written, (if written < n \<and> err = None then Some EOF else err), h', w'))"

definition Writer_WriteZeros ::
  "'u WriterPro \<Rightarrow> 'u store \<Rightarrow> nat Writer \<Rightarrow> int \<Rightarrow> 'u store \<times> nat Writer" where
  "Writer_WriteZeros ops h w n =
     (if wr_err w \<noteq> None \<or> n \<le> 0 then (h, w)
      else if n \<le> BUFFER_SIZE
        then (case Writer_Write ops h w (Some (replicate (nat n) 0)) of
                (m, e, h', w') \<Rightarrow> (h', w'))
      else (case CopyN_Zero ops h w n of
              (m, e, h', w') \<Rightarrow> (h', Writer_setError w' e)))"

definition Writer_Align ::
  "'u WriterPro \<Rightarrow> 'u store \<Rightarrow> nat Writer \<Rightarrow> int \<Rightarrow> 'u store \<times> nat Writer" where
  "Writer_Align ops h w n =
     (if n > 1 then Writer_WriteZeros ops h w (wrap64 (Roundup (wr_count w) n - wr_count w))
      else (h, w))"

text \<open>The single-byte primitives call \<^verbatim>\<open>WriteByte\<close> of the underlying writer.\<close>

definition Writer_write1 ::
  "'u WriterPro \<Rightarrow> 'u store \<Rightarrow> nat Writer \<Rightarrow> byte \<Rightarrow> error option \<times> 'u store \<times> nat Writer" where
  "Writer_write1 ops h w v =
     (case wr_err w of
        Some e \<Rightarrow> (Some e, h, w)
      | None \<Rightarrow>
          (case wp_WriteByte ops (h (wr_w w)) v of
             (e, u') \<Rightarrow>
               (case e of
                  None \<Rightarrow> (None, h(wr_w w := u'), w\<lparr>wr_count := wrap64 (wr_count w + 1)\<rparr>)
                | Some err \<Rightarrow> (Some err, h(wr_w w := u'), w\<lparr>wr_err := Some err\<rparr>))))"

definition Writer_WriteByte ::
  "'u WriterPro \<Rightarrow> 'u store \<Rightarrow> nat Writer \<Rightarrow> byte \<Rightarrow> error option \<times> 'u store \<times> nat Writer" where
  "Writer_WriteByte = Writer_write1"

definition Writer_WriteBool ::
  "'u WriterPro \<Rightarrow> 'u store \<Rightarrow> nat Writer \<Rightarrow> bool \<Rightarrow> 'u store \<times> nat Writer" where
  "Writer_WriteBool ops h w v = snd (Writer_write1 ops h w (if v then 1 else 0))"

definition Writer_WriteUint8 ::
  "'u WriterPro \<Rightarrow> 'u store \<Rightarrow> nat Writer \<Rightarrow> 8 word \<Rightarrow> 'u store \<times> nat Writer" where
  "Writer_WriteUint8 ops h w v = snd (Writer_write1 ops h w v)"

definition Writer_WriteInt8 ::
  "'u WriterPro \<Rightarrow> 'u store \<Rightarrow> nat Writer \<Rightarrow> 8 word \<Rightarrow> 'u store \<times> nat Writer" where
  "Writer_WriteInt8 ops h w v = snd (Writer_write1 ops h w v)"

text \<open>The multi-byte primitives encode into a local array and call \<^verbatim>\<open>Write\<close>.\<close>

definition Writer_writeN ::
  "(ByteOrder \<Rightarrow> 'v \<Rightarrow> byte list) \<Rightarrow> 'u WriterPro \<Rightarrow> 'u store \<Rightarrow> nat Writer \<Rightarrow> 'v
     \<Rightarrow> 'u store \<times> nat Writer" where
  "Writer_writeN enc ops h w v =
     (if wr_err w \<noteq> None then (h, w)
      else (case Writer_Write ops h w (Some (enc (wr_order w) v)) of
              (n, e, h', w') \<Rightarrow> (h', w')))"

definition Writer_WriteUint16 ::
  "'u WriterPro \<Rightarrow> 'u store \<Rightarrow> nat Writer \<Rightarrow> 16 word \<Rightarrow> 'u store \<times> nat Writer" where
  "Writer_WriteUint16 = Writer_writeN PutUint16"

definition Writer_WriteUint32 ::
  "'u WriterPro \<Rightarrow> 'u store \<Rightarrow> nat Writer \<Rightarrow> 32 word \<Rightarrow> 'u store \<times> nat Writer" where
  "Writer_WriteUint32 = Writer_writeN PutUint32"

definition Writer_WriteUint64 ::
  "'u WriterPro \<Rightarrow> 'u store \<Rightarrow> nat Writer \<Rightarrow> 64 word \<Rightarrow> 'u store \<times> nat Writer" where
  "Writer_WriteUint64 = Writer_writeN PutUint64"

definition Writer_WriteInt16 ::
  "'u WriterPro \<Rightarrow> 'u store \<Rightarrow> nat Writer \<Rightarrow> 16 word \<Rightarrow> 'u store \<times> nat Writer" where
  "Writer_WriteInt16 = Writer_writeN PutUint16"

definition Writer_WriteInt32 ::
  "'u WriterPro \<Rightarrow> 'u store \<Rightarrow> nat Writer \<Rightarrow> 32 word \<Rightarrow> 'u store \<times> nat Writer" where
  "Writer_WriteInt32 = Writer_writeN PutUint32"

definition Writer_WriteInt64 ::
  "'u WriterPro \<Rightarrow> 'u store \<Rightarrow> nat Writer \<Rightarrow> 64 word \<Rightarrow> 'u store \<times> nat Writer" where
  "Writer_WriteInt64 = Writer_writeN PutUint64"

subsection \<open>A latched writer\<close>

lemma Writer_Write_latched:
  "wr_err w = Some e \<Longrightarrow> Writer_Write ops h w buf = (0, Some e, h, w)"
  by (cases buf) (simp_all add: Writer_Write_def)

lemma Writer_WriteString_latched:
  "wr_err w = Some e \<Longrightarrow> Writer_WriteString ops h w str = (0, Some e, h, w)"
  by (simp add: Writer_WriteString_def)

lemma Writer_ReadFrom_latched:
  "wr_err w = Some e \<Longrightarrow> Writer_ReadFrom ops h w n = (0, Some e, h, w)"
  by (simp add: Writer_ReadFrom_def)

lemma Writer_Flush_latched:
  "wr_err w = Some e \<Longrightarrow> Writer_Flush ops h w = (Some e, h, w)"
  by (simp add: Writer_Flush_def)

lemma Writer_Result_latched:
  "wr_err w = Some e \<Longrightarrow> Writer_Result ops h w = (wr_count w, Some e, h, w)"
  by (simp add: Writer_Result_def Writer_Flush_latched)

lemma Writer_WriteFrom_latched:
  "wr_err w = Some e \<Longrightarrow> Writer_WriteFrom h w wt = (h, w)"
  by (cases wt) (simp_all add: Writer_WriteFrom_def)

lemma Writer_WriteBytes_latched:
  "wr_err w = Some e \<Longrightarrow> Writer_WriteBytes ops h w buf = (h, w)"
  by (simp add: Writer_WriteBytes_def)

lemma Writer_WriteZeros_latched:
  "wr_err w = Some e \<Longrightarrow> Writer_WriteZeros ops h w n = (h, w)"
  by (simp add: Writer_WriteZeros_def)

lemma Writer_Align_latched:
  "wr_err w = Some e \<Longrightarrow> Writer_Align ops h w n = (h, w)"
  by (simp add: Writer_Align_def Writer_WriteZeros_latched)

lemma Writer_write1_latched:
  "wr_err w = Some e \<Longrightarrow> Writer_write1 ops h w v = (Some e, h, w)"
  by (simp add: Writer_write1_def)

lemma Writer_writeN_latched:
  "wr_err w = Some e \<Longrightarrow> Writer_writeN enc ops h w v = (h, w)"
  by (simp add: Writer_writeN_def)

subsection \<open>The byte-slice reader and writer as underlying objects\<close>

definition BytesReader_ops :: "BytesReader ReaderPro" where
  "BytesReader_ops =
     \<lparr>rp_Read = BytesReader_Read, rp_ReadByte = BytesReader_ReadByte,
      rp_Seek = BytesReader_Seek, rp_Size = BytesReader_Size\<rparr>"

definition BytesWriter_ops :: "BytesWriter WriterPro" where
  "BytesWriter_ops =
     \<lparr>wp_Write = BytesWriter_Write, wp_WriteByte = BytesWriter_WriteByte,
      wp_WriteString = BytesWriter_WriteString, wp_ReadFrom = BytesWriter_ReadFrom,
      wp_Flush = BytesWriter_Flush, wp_Size = BytesWriter_Size\<rparr>"

section \<open>Error latching\<close>

text \<open>
  C2. Once a typed reader or a typed writer has latched an error, every primitive
  operation is a no-op: the destination keeps its value, the count, the underlying source
  or sink and the rest of the reader or writer are unchanged (so no byte is consumed or
  emitted), and the operations that return an error return the latched one. Operations
  whose model can fail to return do return here.
\<close>

theorem latched_operations_are_noops:
  assumes "rd_err rd = Some e" and "wr_err w = Some e'"
  shows "Reader_Read rops rd k = ([], Some e, rd)
    \<and> Reader_ReadByte rops rd = (0, Some e, rd)
    \<and> Reader_Seek rops rd offset whence = (rd_count rd, Some e, rd)
    \<and> Reader_ReadBytes rops rd n = Some (None, rd)
    \<and> Reader_ReadBytesTo rops rd dest = Some (dest, rd)
    \<and> Reader_Align rops rd a = Some rd
    \<and> Reader_ReadBool rops rd vb = (vb, rd)
    \<and> Reader_ReadUint8 rops rd v8 = (v8, rd)
    \<and> Reader_ReadInt8 rops rd v8 = (v8, rd)
    \<and> Reader_ReadUint16 rops rd v16 = Some (v16, rd)
    \<and> Reader_ReadUint32 rops rd v32 = Some (v32, rd)
    \<and> Reader_ReadUint64 rops rd v64 = Some (v64, rd)
    \<and> Reader_ReadInt16 rops rd v16 = Some (v16, rd)
    \<and> Reader_ReadInt32 rops rd v32 = Some (v32, rd)
    \<and> Reader_ReadInt64 rops rd v64 = Some (v64, rd)
    \<and> Reader_Err rd = Some e \<and> Reader_Count rd = rd_count rd
    \<and> Writer_Write wops h w buf = (0, Some e', h, w)
    \<and> Writer_WriteString wops h w str = (0, Some e', h, w)
    \<and> Writer_WriteByte wops h w v8 = (Some e', h, w)
    \<and> Writer_WriteBytes wops h w buf = (h, w)
    \<and> Writer_WriteZeros wops h w z = (h, w)
    \<and> Writer_Align wops h w a = (h, w)
    \<and> Writer_WriteFrom h w wt = (h, w)
    \<and> Writer_WriteBool wops h w vb = (h, w)
    \<and> Writer_WriteUint8 wops h w v8 = (h, w)
    \<and> Writer_WriteInt8 wops h w v8 = (h, w)
    \<and> Writer_WriteUint16 wops h w v16 = (h, w)
    \<and> Writer_WriteUint32 wops h w v32 = (h, w)
    \<and> Writer_WriteUint64 wops h w v64 = (h, w)
    \<and> Writer_WriteInt16 wops h w v16 = (h, w)
    \<and> Writer_WriteInt32 wops h w v32 = (h, w)
    \<and> Writer_WriteInt64 wops h w v64 = (h, w)
    \<and> Writer_Flush wops h w = (Some e', h, w)
    \<and> Writer_Result wops h w = (wr_count w, Some e', h, w)"
proof -
  note r = assms(1) and l = assms(2)
  have reader1: "Reader_Read rops rd k = ([], Some e, rd)"
    "Reader_ReadByte rops rd = (0, Some e, rd)"
    "Reader_Seek rops rd offset whence = (rd_count rd, Some e, rd)"
    "Reader_ReadBytes rops rd n = Some (None, rd)"
    "Reader_ReadBytesTo rops rd dest = Some (dest, rd)"
    "Reader_Align rops rd a = Some rd"
    by (simp_all add: r Reader_Read_latched Reader_ReadByte_latched Reader_Seek_latched
        Reader_ReadBytes_latched Reader_ReadBytesTo_latched Reader_Align_latched)
  have reader2: "Reader_ReadBool rops rd vb = (vb, rd)"
    "Reader_ReadUint8 rops rd v8 = (v8, rd)"
    "Reader_ReadInt8 rops rd v8 = (v8, rd)"
    by (simp_all add: r Reader_ReadBool_def Reader_ReadUint8_def Reader_ReadInt8_def
        Reader_read1_latched)
  have reader3: "Reader_ReadUint16 rops rd v16 = Some (v16, rd)"
    "Reader_ReadUint32 rops rd v32 = Some (v32, rd)"
    "Reader_ReadUint64 rops rd v64 = Some (v64, rd)"
    "Reader_ReadInt16 rops rd v16 = Some (v16, rd)"
    "Reader_ReadInt32 rops rd v32 = Some (v32, rd)"
    "Reader_ReadInt64 rops rd v64 = Some (v64, rd)"
    by (simp_all add: r Reader_ReadUint16_def Reader_ReadUint32_def Reader_ReadUint64_def
        Reader_ReadInt16_def Reader_ReadInt32_def Reader_ReadInt64_def Reader_readN_latched)
  have reader4: "Reader_Err rd = Some e" "Reader_Count rd = rd_count rd"
    by (simp_all add: r Reader_Err_def Reader_Count_def)
  have writer1: "Writer_Write wops h w buf = (0, Some e', h, w)"
    "Writer_WriteString wops h w str = (0, Some e', h, w)"
    "Writer_WriteByte wops h w v8 = (Some e', h, w)"
    "Writer_WriteBytes wops h w buf = (h, w)"
    "Writer_WriteZeros wops h w z = (h, w)"
    "Writer_Align wops h w a = (h, w)"
    "Writer_WriteFrom h w wt = (h, w)"
    by (simp_all add: l Writer_Write_latched Writer_WriteString_latched Writer_WriteByte_def
        Writer_write1_latched Writer_WriteBytes_latched Writer_WriteZeros_latched
        Writer_Align_latched Writer_WriteFrom_latched)
  have writer2: "Writer_WriteBool wops h w vb = (h, w)"
    "Writer_WriteUint8 wops h w v8 = (h, w)"
    "Writer_WriteInt8 wops h w v8 = (h, w)"
    by (simp_all add: l Writer_WriteBool_def Writer_WriteUint8_def Writer_WriteInt8_def
        Writer_write1_latched)
  have writer3: "Writer_WriteUint16 wops h w v16 = (h, w)"
    "Writer_WriteUint32 wops h w v32 = (h, w)"
    "Writer_WriteUint64 wops h w v64 = (h, w)"
    "Writer_WriteInt16 wops h w v16 = (h, w)"
    "Writer_WriteInt32 wops h w v32 = (h, w)"
    "Writer_WriteInt64 wops h w v64 = (h, w)"
    by (simp_all add: l Writer_WriteUint16_def Writer_WriteUint32_def Writer_WriteUint64_def
        Writer_WriteInt16_def Writer_WriteInt32_def Writer_WriteInt64_def Writer_writeN_latched)
  have writer4: "Writer_Flush wops h w = (Some e', h, w)"
    "Writer_Result wops h w = (wr_count w, Some e', h, w)"
    by (simp_all add: l Writer_Flush_latched Writer_Result_latched)
  show ?thesis
    by (intro conjI reader1 reader2 reader3 reader4 writer1 writer2 writer3 writer4)
qed

text \<open>
  The reader of scenario S2, latched by \<^verbatim>\<open>ReadUint32\<close> on the source \<open>01 02 03\<close>, and a writer
  over a full five-byte slice, latched with \<^verbatim>\<open>io.ErrShortWrite\<close>.
\<close>

lemmas reader_eval =
  Reader_readN_def Reader_readFull_def ReadFull_def ReadAtLeast_def ReadAtLeast_loop.simps
  Reader_Read_def Reader_read1_def Reader_setError_def BytesReader_ops_def BytesReader_Read_def
  BytesReader_ReadByte_def mkReader_def NewBytesReader_def wrap64_def Order_def Let_def

definition latched_reader :: "BytesReader Reader" where
  "latched_reader =
     \<lparr>rd_r = \<lparr>br_B = [1, 2, 3], br_N = 3\<rparr>, rd_count = 3,
      rd_err = Some ErrUnexpectedEOF, rd_order = BE\<rparr>"

definition latched_writer :: "nat Writer" where
  "latched_writer =
     \<lparr>wr_w = 0, wr_count = 5, wr_err = Some ErrShortWrite, wr_depth = 0, wr_order = BE\<rparr>"

definition full_store :: "BytesWriter store" where
  "full_store = (\<lambda>a. \<lparr>bw_B = [0x11, 0x22, 0x33, 0x44, 0xAA], bw_N = 5\<rparr>)"

theorem latched_operations_are_noops_witness:
  "rd_err latched_reader = Some ErrUnexpectedEOF
   \<and> wr_err latched_writer = Some ErrShortWrite
   \<and> Reader_ReadUint32 BytesReader_ops (mkReader (NewBytesReader [1, 2, 3])) 0
       = Some (0, latched_reader)
   \<and> Reader_ReadUint8 BytesReader_ops latched_reader 0 = (0, latched_reader)
   \<and> Reader_Read BytesReader_ops latched_reader 1 = ([], Some ErrUnexpectedEOF, latched_reader)
   \<and> Reader_Err latched_reader = Some ErrUnexpectedEOF
   \<and> Writer_WriteUint8 BytesWriter_ops full_store latched_writer 0xFF
       = (full_store, latched_writer)
   \<and> Writer_Flush BytesWriter_ops full_store latched_writer
       = (Some ErrShortWrite, full_store, latched_writer)
   \<and> Writer_Result BytesWriter_ops full_store latched_writer
       = (5, Some ErrShortWrite, full_store, latched_writer)"
proof -
  have r: "rd_err latched_reader = Some ErrUnexpectedEOF"
    by (simp add: latched_reader_def)
  have l: "wr_err latched_writer = Some ErrShortWrite"
    by (simp add: latched_writer_def)
  have run: "Reader_ReadUint32 BytesReader_ops (mkReader (NewBytesReader [1, 2, 3])) 0
     = Some (0, latched_reader)"
    by (simp add: Reader_ReadUint32_def reader_eval latched_reader_def)
  have c: "wr_count latched_writer = 5"
    by (simp add: latched_writer_def)
  note a = latched_operations_are_noops [OF r l, where rops = BytesReader_ops and k = 1
      and ?v8.0 = 0 and wops = BytesWriter_ops and h = full_store]
  note b = latched_operations_are_noops [OF r l, where wops = BytesWriter_ops
      and h = full_store and ?v8.0 = 255]
  show ?thesis
    using a b run c r l by simp
qed

section \<open>End of stream\<close>

subsection \<open>What the reader latches when the source ends\<close>


lemma Reader_Read_data:
  assumes "rd_err rd = None"
    and "rp_Read ops (rd_r rd) k = (d, None, u')"
  shows "Reader_Read ops rd k
    = (d, None, rd\<lparr>rd_r := u', rd_count := wrap64 (rd_count rd + int (length d))\<rparr>)"
  using assms by (simp add: Reader_Read_def Reader_setError_def)



lemma ReadFull_Reader_partial_eof:
  assumes "rd_err rd = None" and "0 < length d" and "length d < n"
    and "rp_Read ops (rd_r rd) n = (d, Some EOF, u1)"
  shows "ReadFull (Reader_Read ops) rd n
    = Some (d, Some ErrUnexpectedEOF,
        rd\<lparr>rd_r := u1, rd_count := wrap64 (rd_count rd + int (length d)),
           rd_err := Some EOF\<rparr>)"
  using assms
  by (simp add: ReadFull_def ReadAtLeast_def ReadAtLeast_loop.simps Reader_Read_def Reader_setError_def)












section \<open>The typed writer: construction and flushing\<close>












section \<open>Copying between readers and writers\<close>





section \<open>The chained reader\<close>

text \<open>
  \<^verbatim>\<open>ChainedReader\<close>. \<open>U\<close>, the reader inside the \<^verbatim>\<open>io.LimitedReader\<close> \<open>R\<close> and the seeker \<open>S\<close> of
  \<^verbatim>\<open>ChainedReadSeeker\<close> are one object, the underlying stream, whose state is \<open>cr_U\<close>;
  \<open>cr_RN\<close> is \<open>R.N\<close>. The callback \<open>C\<close> (\<open>None\<close> is \<open>nil\<close>) is given the underlying stream
  and may read from it; \<open>cr_env\<close> holds the variables the callback closes over, which it
  may change.
\<close>

record ('s, 'c) ChainedReader =
  cr_U :: 's
  cr_RN :: int
  cr_C :: "('c \<Rightarrow> 's \<Rightarrow> error option \<times> 'c \<times> 's) option"
  cr_env :: 'c
  cr_E :: bool
  cr_N :: int

definition ChainReader ::
  "'s \<Rightarrow> int \<Rightarrow> ('c \<Rightarrow> 's \<Rightarrow> error option \<times> 'c \<times> 's) option \<Rightarrow> 'c \<Rightarrow> ('s, 'c) ChainedReader" where
  "ChainReader reader n callback env =
     \<lparr>cr_U = reader, cr_RN = n, cr_C = callback, cr_env = env, cr_E = False, cr_N = n\<rparr>"

text \<open>
  The end of \<^verbatim>\<open>Read\<close> and of \<^verbatim>\<open>WriteTo\<close>: mark the callback as executed and run it. The
  result is the callback's error and the reader.
\<close>

definition run_callback :: "('s, 'c) ChainedReader \<Rightarrow> error option \<times> ('s, 'c) ChainedReader" where
  "run_callback cr =
     (case cr_C cr of
        None \<Rightarrow> (None, cr\<lparr>cr_E := True\<rparr>)
      | Some cb \<Rightarrow>
          (case cb (cr_env cr) (cr_U cr) of
             (actionErr, env', u') \<Rightarrow> (actionErr, cr\<lparr>cr_E := True, cr_U := u', cr_env := env'\<rparr>)))"

definition ChainedReader_Read :: "'s read_fn \<Rightarrow> (('s, 'c) ChainedReader) read_fn" where
  "ChainedReader_Read rf cr k =
     (if cr_E cr \<and> cr_RN cr \<le> 0 then ([], Some EOF, cr)
      else (case LimitedReader_Read rf (cr_U cr, cr_RN cr) k of
              (d, err, (u1, n1)) \<Rightarrow>
                (let cr1 = cr\<lparr>cr_U := u1, cr_RN := n1\<rparr>
                 in if n1 = 0 \<or> err = Some EOF
                    then (if cr_E cr then (d, Some EOF, cr1)
                          else (case run_callback cr1 of
                                  (Some actionErr, cr2) \<Rightarrow> (d, Some (ChainedReadFailed actionErr), cr2)
                                | (None, cr2) \<Rightarrow> (d, (if err = None then Some EOF else err), cr2)))
                    else (d, err, cr1))))"


text \<open>
  \<^verbatim>\<open>ChainedReadSeeker.Seek\<close>; \<open>sk\<close> is the \<^verbatim>\<open>Seek\<close> method of the underlying stream.
\<close>

definition ChainedReadSeeker_Seek ::
  "('s \<Rightarrow> int \<Rightarrow> int \<Rightarrow> int \<times> error option \<times> 's) \<Rightarrow> ('s, 'c) ChainedReader \<Rightarrow> int \<Rightarrow> int
     \<Rightarrow> int \<times> error option \<times> ('s, 'c) ChainedReader" where
  "ChainedReadSeeker_Seek sk cr offset whence =
     (case sk (cr_U cr) offset whence of
        (n, err, u') \<Rightarrow>
          (case err of
             Some e \<Rightarrow> (n, Some e, cr\<lparr>cr_U := u'\<rparr>)
           | None \<Rightarrow> (n, None, cr\<lparr>cr_U := u', cr_RN := wrap64 (cr_N cr - n), cr_E := False\<rparr>)))"

subsection \<open>Seeking\<close>

lemma LimitedReader_Read_exhausted:
  "N \<le> 0 \<Longrightarrow> LimitedReader_Read rf (u, N) k = ([], Some EOF, (u, N))"
  by (simp add: LimitedReader_Read_def)

lemma ChainedReader_Read_after_bound:
  assumes "\<not> cr_E cr" and "cr_RN cr \<le> 0"
  shows "ChainedReader_Read rf cr k =
     (case run_callback cr of
        (Some actionErr, cr2) \<Rightarrow> ([], Some (ChainedReadFailed actionErr), cr2)
      | (None, cr2) \<Rightarrow> ([], Some EOF, cr2))"
  using assms
  by (simp add: ChainedReader_Read_def LimitedReader_Read_exhausted split: prod.splits option.splits)

text \<open>
  C9. Every successful seek of the seek-capable chained reader, whatever the position it
  reaches, sets the remaining bound to \<open>N\<close> minus the new position and clears the executed
  flag; a failed seek changes neither. So after a seek to or past the end of the payload
  the next \<^verbatim>\<open>Read\<close> finds the bound exhausted with the flag clear and runs the callback once
  more, on the underlying stream as the seek left it, before it returns end of stream (or
  the callback's wrapped failure).
\<close>

theorem seek_resets_chained_reader:
  "(sk (cr_U cr) offset whence = (pos, None, u') \<longrightarrow>
      ChainedReadSeeker_Seek sk cr offset whence
        = (pos, None, cr\<lparr>cr_U := u', cr_RN := wrap64 (cr_N cr - pos), cr_E := False\<rparr>))
   \<and> (sk (cr_U cr) offset whence = (pos, Some e, u') \<longrightarrow>
      ChainedReadSeeker_Seek sk cr offset whence = (pos, Some e, cr\<lparr>cr_U := u'\<rparr>))
   \<and> (sk (cr_U cr) offset whence = (pos, None, u') \<and> cr_C cr = Some cb
        \<and> 0 \<le> cr_N cr \<and> cr_N cr \<le> pos \<and> pos < 2 ^ 63 \<longrightarrow>
      ChainedReader_Read rf (snd (snd (ChainedReadSeeker_Seek sk cr offset whence))) k
        = ([],
           (case fst (cb (cr_env cr) u') of
              None \<Rightarrow> Some EOF | Some actionErr \<Rightarrow> Some (ChainedReadFailed actionErr)),
           cr\<lparr>cr_U := snd (snd (cb (cr_env cr) u')), cr_RN := cr_N cr - pos,
              cr_env := fst (snd (cb (cr_env cr) u')), cr_E := True\<rparr>))"
proof -
  have ok: "sk (cr_U cr) offset whence = (pos, None, u') \<longrightarrow>
      ChainedReadSeeker_Seek sk cr offset whence
        = (pos, None, cr\<lparr>cr_U := u', cr_RN := wrap64 (cr_N cr - pos), cr_E := False\<rparr>)"
    by (simp add: ChainedReadSeeker_Seek_def)
  have bad: "sk (cr_U cr) offset whence = (pos, Some e, u') \<longrightarrow>
      ChainedReadSeeker_Seek sk cr offset whence = (pos, Some e, cr\<lparr>cr_U := u'\<rparr>)"
    by (simp add: ChainedReadSeeker_Seek_def)
  have again: "sk (cr_U cr) offset whence = (pos, None, u') \<and> cr_C cr = Some cb
        \<and> 0 \<le> cr_N cr \<and> cr_N cr \<le> pos \<and> pos < 2 ^ 63 \<longrightarrow>
      ChainedReader_Read rf (snd (snd (ChainedReadSeeker_Seek sk cr offset whence))) k
        = ([],
           (case fst (cb (cr_env cr) u') of
              None \<Rightarrow> Some EOF | Some actionErr \<Rightarrow> Some (ChainedReadFailed actionErr)),
           cr\<lparr>cr_U := snd (snd (cb (cr_env cr) u')), cr_RN := cr_N cr - pos,
              cr_env := fst (snd (cb (cr_env cr) u')), cr_E := True\<rparr>)"
  proof (intro impI, elim conjE)
    assume a: "sk (cr_U cr) offset whence = (pos, None, u')" "cr_C cr = Some cb"
      "0 \<le> cr_N cr" "cr_N cr \<le> pos" "pos < 2 ^ 63"
    have w: "wrap64 (cr_N cr - pos) = cr_N cr - pos"
      using a by (intro wrap64_id) (simp add: in_int64_def)
    let ?cr = "cr\<lparr>cr_U := u', cr_RN := cr_N cr - pos, cr_E := False\<rparr>"
    have s: "snd (snd (ChainedReadSeeker_Seek sk cr offset whence)) = ?cr"
      using a w by (simp add: ChainedReadSeeker_Seek_def)
    have "ChainedReader_Read rf ?cr k =
     (case run_callback ?cr of
        (Some actionErr, cr2) \<Rightarrow> ([], Some (ChainedReadFailed actionErr), cr2)
      | (None, cr2) \<Rightarrow> ([], Some EOF, cr2))"
      using a by (intro ChainedReader_Read_after_bound) simp_all
    then show "ChainedReader_Read rf (snd (snd (ChainedReadSeeker_Seek sk cr offset whence))) k
        = ([],
           (case fst (cb (cr_env cr) u') of
              None \<Rightarrow> Some EOF | Some actionErr \<Rightarrow> Some (ChainedReadFailed actionErr)),
           cr\<lparr>cr_U := snd (snd (cb (cr_env cr) u')), cr_RN := cr_N cr - pos,
              cr_env := fst (snd (cb (cr_env cr) u')), cr_E := True\<rparr>)"
      unfolding s using a(2)
      by (auto simp: run_callback_def split: prod.splits option.splits)
  qed
  show ?thesis by (intro conjI ok bad again)
qed

text \<open>
  A callback that records the position of the stream it is handed, and the chained reader
  over two payload bytes and a trailer after the \<^verbatim>\<open>Read\<close> that drained the payload.
\<close>

definition log_cb :: "nat list \<Rightarrow> BytesReader \<Rightarrow> error option \<times> nat list \<times> BytesReader" where
  "log_cb env u = (None, env @ [br_N u], u)"

definition drained_reader :: "(BytesReader, nat list) ChainedReader" where
  "drained_reader =
     \<lparr>cr_U = \<lparr>br_B = [1, 2, 0xCA, 0xFE], br_N = 2\<rparr>, cr_RN = 0, cr_C = Some log_cb,
      cr_env = [2], cr_E = True, cr_N = 2\<rparr>"

lemmas chained_eval =
  ChainedReader_Read_def ChainReader_def run_callback_def LimitedReader_Read_def
  BytesReader_Read_def BytesReader_Seek_def NewBytesReader_def log_cb_def wrap64_def Let_def

theorem seek_resets_chained_reader_witness:
  "ChainedReader_Read BytesReader_Read
      (ChainReader (NewBytesReader [1, 2, 0xCA, 0xFE]) 2 (Some log_cb) []) 2
     = ([1, 2], Some EOF, drained_reader)
   \<and> BytesReader_Seek (cr_U drained_reader) 2 0 = (2, None, \<lparr>br_B = [1, 2, 0xCA, 0xFE], br_N = 2\<rparr>)
   \<and> BytesReader_Seek (cr_U drained_reader) (- 1) 0
     = (0, Some ErrInvalidSeek, \<lparr>br_B = [1, 2, 0xCA, 0xFE], br_N = 2\<rparr>)
   \<and> cr_C drained_reader = Some log_cb
   \<and> 0 \<le> cr_N drained_reader \<and> cr_N drained_reader \<le> 2 \<and> (2::int) < 2 ^ 63
   \<and> ChainedReadSeeker_Seek BytesReader_Seek drained_reader 2 0
     = (2, None, drained_reader\<lparr>cr_E := False\<rparr>)
   \<and> ChainedReadSeeker_Seek BytesReader_Seek drained_reader (- 1) 0
     = (0, Some ErrInvalidSeek, drained_reader)
   \<and> ChainedReader_Read BytesReader_Read (drained_reader\<lparr>cr_E := False\<rparr>) 1
     = ([], Some EOF, drained_reader\<lparr>cr_env := [2, 2]\<rparr>)"
proof -
  have drain: "ChainedReader_Read BytesReader_Read
      (ChainReader (NewBytesReader [1, 2, 0xCA, 0xFE]) 2 (Some log_cb) []) 2
     = ([1, 2], Some EOF, drained_reader)"
    by (simp add: chained_eval drained_reader_def)
  have sk: "BytesReader_Seek (cr_U drained_reader) 2 0
      = (2, None, \<lparr>br_B = [1, 2, 0xCA, 0xFE], br_N = 2\<rparr>)"
    "BytesReader_Seek (cr_U drained_reader) (- 1) 0
      = (0, Some ErrInvalidSeek, \<lparr>br_B = [1, 2, 0xCA, 0xFE], br_N = 2\<rparr>)"
    by (simp_all add: BytesReader_Seek_def drained_reader_def)
  have c: "cr_C drained_reader = Some log_cb" "cr_N drained_reader = 2"
    "cr_env drained_reader = [2]"
    by (simp_all add: drained_reader_def)
  have st: "drained_reader\<lparr>cr_U := \<lparr>br_B = [1, 2, 0xCA, 0xFE], br_N = 2\<rparr>\<rparr> = drained_reader"
    "drained_reader\<lparr>cr_U := \<lparr>br_B = [1, 2, 0xCA, 0xFE], br_N = 2\<rparr>, cr_RN := 0,
        cr_E := False\<rparr> = drained_reader\<lparr>cr_E := False\<rparr>"
    "drained_reader\<lparr>cr_U := \<lparr>br_B = [1, 2, 0xCA, 0xFE], br_N = 2\<rparr>, cr_RN := 0,
        cr_env := [2, 2], cr_E := True\<rparr> = drained_reader\<lparr>cr_env := [2, 2]\<rparr>"
    by (simp_all add: drained_reader_def)
  note t1 = seek_resets_chained_reader [where sk = BytesReader_Seek and cr = drained_reader
      and offset = 2 and whence = 0 and pos = 2 and u' = "\<lparr>br_B = [1, 2, 0xCA, 0xFE], br_N = 2\<rparr>"
      and cb = log_cb and rf = BytesReader_Read and k = 1]
  note t2 = seek_resets_chained_reader [where sk = BytesReader_Seek and cr = drained_reader
      and offset = "- 1" and whence = 0 and pos = 0 and e = ErrInvalidSeek
      and u' = "\<lparr>br_B = [1, 2, 0xCA, 0xFE], br_N = 2\<rparr>"]
  show ?thesis
    using t1 t2 drain sk c by (auto simp: drained_reader_def log_cb_def wrap64_def)
qed

subsection \<open>Sequences of reads and copies\<close>
























section \<open>Properties of the constructor\<close>

text \<open>
  C10. The minimum-size rejection of \<^verbatim>\<open>NewReaderSize\<close> comes after the dispatch on the
  source's type: the constructor answers \<^verbatim>\<open>ErrSizeTooSmall\<close> exactly when the requested
  size is below 16 and the source is of none of the recognised types or is a typed reader
  whose buffer is smaller than the request, which falls out of the switch. So a source of
  an unrecognised type is rejected for every size below 16, and always by the default
  constructor \<^verbatim>\<open>NewReader\<close>, which requests size 0, while \<^verbatim>\<open>nil\<close>, a \<^verbatim>\<open>*bufio.Reader\<close>,
  a \<^verbatim>\<open>*BytesReader\<close>, a \<^verbatim>\<open>*bytes.Reader\<close> and a \<^verbatim>\<open>*bytes.Buffer\<close> never meet the size
  test; the byte-slice reader and the \<^verbatim>\<open>bytes.Buffer\<close> are accepted without buffering
  whatever size is requested.
\<close>

theorem NewReaderSize_size_check_after_dispatch:
  "((NewReaderSize src sz = Inl ErrSizeTooSmall) =
      (sz < 16 \<and> ((\<exists>x. src = OtherReader x)
                  \<or> (\<exists>u usize. src = PtrReader u usize \<and> usize < sz))))
   \<and> ((NewReader src = Inl ErrSizeTooSmall) =
      ((\<exists>x. src = OtherReader x) \<or> (\<exists>u usize. src = PtrReader u usize \<and> usize < 0)))
   \<and> ((NewReaderSize (OtherReader x) sz = Inl ErrSizeTooSmall) = (sz < 16))
   \<and> NewReaderSize (OtherReader x) sz =
       (if sz < 16 then Inl ErrSizeTooSmall
        else Inr (mkReader (NewBufioReaderAdapter (OtherReader x) sz)))
   \<and> NewReader (OtherReader x) = Inl ErrSizeTooSmall
   \<and> NewReaderSize (PtrBytesReader b) sz = Inr (mkReader (DirectBytesReader b))
   \<and> NewReaderSize (PtrBytesBuffer b) sz = Inr (mkReader (BytesBufferReaderAdapter b))
   \<and> NewReaderSize (PtrBytesDotReader b) sz = Inr (mkReader (BytesReaderAdapter b))
   \<and> NewReaderSize (PtrBufioReader b bsize) sz =
       (if bsize \<ge> sz then Inr (mkReader (BufioReaderAdapter b)) else Inl ErrAlreadyBuffered)
   \<and> NewReaderSize NilReader sz = Inl ErrNilIO
   \<and> NewReader (PtrBytesReader b) = Inr (mkReader (DirectBytesReader b))
   \<and> NewReader (PtrBytesBuffer b) = Inr (mkReader (BytesBufferReaderAdapter b))"
proof -
  have general: "(NewReaderSize src k = Inl ErrSizeTooSmall) =
      (k < 16 \<and> ((\<exists>x. src = OtherReader x)
                 \<or> (\<exists>u usize. src = PtrReader u usize \<and> usize < k)))" for k
    by (cases src) auto
  have default: "(NewReader src = Inl ErrSizeTooSmall) =
      ((\<exists>x. src = OtherReader x) \<or> (\<exists>u usize. src = PtrReader u usize \<and> usize < 0))"
    unfolding NewReader_def general by simp
  show ?thesis
    unfolding general default by (simp add: NewReader_def)
qed

end
